theory Spec2Isabelle
  imports Main "HOL-Library.Sublist" "HOL-Library.AList" "HOL-Library.Code_Target_Nat"
begin

section \<open>Python strings\<close>

text \<open>
  A Python \<open>str\<close> is a sequence of Unicode code points, and \<open>len\<close> counts code
  points; the model is a list of natural numbers. ASCII literals of the source are
  written \<open>cp ''...''\<close>, other literals as explicit code-point lists.
\<close>

type_synonym pystr = "nat list"

definition cp :: "string \<Rightarrow> pystr" where
  "cp s = map of_char s"

text \<open>
  The character tables of the Python runtime are not part of the repository. Their
  ASCII part is fixed and written out below; what they say about code points from 128
  upwards is a parameter of the model:
  \<^item> \<open>ws_hi\<close>: whether the code point is white space (\<open>str.strip\<close>, \<open>\s\<close>);
  \<^item> \<open>nd_hi\<close>: whether it is a decimal digit (\<open>\d\<close>);
  \<^item> \<open>lower_hi s i\<close>: what \<open>str.lower\<close> writes for the code point at index \<open>i\<close>
    of \<open>s\<close> (one code point may become several, and capital sigma depends on its
    neighbours).
\<close>

record unicode_db =
  ws_hi :: "nat \<Rightarrow> bool"
  nd_hi :: "nat \<Rightarrow> bool"
  lower_hi :: "pystr \<Rightarrow> nat \<Rightarrow> pystr"

definition isspace :: "unicode_db \<Rightarrow> nat \<Rightarrow> bool" where
  "isspace U c = (if c < 128 then (9 \<le> c \<and> c \<le> 13) \<or> (28 \<le> c \<and> c \<le> 32) else ws_hi U c)"

definition isdecimal :: "unicode_db \<Rightarrow> nat \<Rightarrow> bool" where
  "isdecimal U c = (if c < 128 then 48 \<le> c \<and> c \<le> 57 else nd_hi U c)"

definition ascii_lower :: "nat \<Rightarrow> nat" where
  "ascii_lower c = (if 65 \<le> c \<and> c \<le> 90 then c + 32 else c)"

definition lower_at :: "unicode_db \<Rightarrow> pystr \<Rightarrow> nat \<Rightarrow> pystr" where
  "lower_at U s i = (let c = s ! i in if c < 128 then [ascii_lower c] else lower_hi U s i)"

definition lower :: "unicode_db \<Rightarrow> pystr \<Rightarrow> pystr" where
  "lower U s = concat (map (lower_at U s) [0..<length s])"

text \<open>\<open>needle in hay\<close> on strings: \<open>needle\<close> occurs as a contiguous run.\<close>

fun py_in :: "pystr \<Rightarrow> pystr \<Rightarrow> bool" where
  "py_in needle [] = (needle = [])"
| "py_in needle (c # cs) = (prefix needle (c # cs) \<or> py_in needle cs)"

definition lstrip :: "unicode_db \<Rightarrow> pystr \<Rightarrow> pystr" where
  "lstrip U s = dropWhile (isspace U) s"

definition rstrip :: "unicode_db \<Rightarrow> pystr \<Rightarrow> pystr" where
  "rstrip U s = rev (dropWhile (isspace U) (rev s))"

definition strip :: "unicode_db \<Rightarrow> pystr \<Rightarrow> pystr" where
  "strip U s = rstrip U (lstrip U s)"

text \<open>
  \<open>str.splitlines\<close>: a line ends at \<open>\r\n\<close> or at one of the line boundaries
  \<open>\n \v \f \r \x1c \x1d \x1e \x85\<close>, U+2028, U+2029; no empty last line is produced.
  The first argument is the line read so far.
\<close>

definition is_linebreak :: "nat \<Rightarrow> bool" where
  "is_linebreak c = ((10 \<le> c \<and> c \<le> 13) \<or> (28 \<le> c \<and> c \<le> 30) \<or> c = 0x85 \<or> c = 0x2028 \<or> c = 0x2029)"

fun splitlines_from :: "pystr \<Rightarrow> pystr \<Rightarrow> pystr list" where
  "splitlines_from cur [] = (if cur = [] then [] else [cur])"
| "splitlines_from cur [c] = (if is_linebreak c then [cur] else [cur @ [c]])"
| "splitlines_from cur (c # d # cs) =
     (if c = 13 \<and> d = 10 then cur # splitlines_from [] cs
      else if is_linebreak c then cur # splitlines_from [] (d # cs)
      else splitlines_from (cur @ [c]) (d # cs))"

definition splitlines :: "pystr \<Rightarrow> pystr list" where
  "splitlines s = splitlines_from [] s"

fun join :: "pystr \<Rightarrow> pystr list \<Rightarrow> pystr" where
  "join sep [] = []"
| "join sep [x] = x"
| "join sep (x # y # ys) = x @ sep @ join sep (y # ys)"

text \<open>\<open>s[:k]\<close>: a negative \<open>k\<close> counts from the end of the string.\<close>

definition slice_to :: "pystr \<Rightarrow> int \<Rightarrow> pystr" where
  "slice_to s k = (if k < 0 then take (nat (int (length s) + k)) s else take (nat k) s)"

datatype py_error = ValueError | AttributeError | KeyError

section \<open>The regular expressions of the program\<close>

text \<open>
  The patterns of the source are sequences of the following items, and every repetition
  in them is over a single character class. \<open>x+\<close> is written \<open>One x, Star x\<close>.
  \<^item> \<open>One p\<close>: one character satisfying \<open>p\<close> (a literal, a class, \<open>\d\<close>, \<open>\s\<close>, \<open>.\<close>);
  \<^item> \<open>Star p\<close>, \<open>Opt p\<close>: greedy \<open>*\<close> and \<open>?\<close>; \<open>LazyStar p\<close>: \<open>*?\<close>;
  \<^item> \<open>GroupOpen\<close>, \<open>GroupClose\<close>: the parentheses of capturing group 1;
  \<^item> \<open>Ahead alts\<close>: the lookahead \<open>(?=a|b)\<close>, each alternative a sequence of
    \<open>ahead_item\<close>s;
  \<^item> \<open>Dollar\<close>: \<open>$\<close> without MULTILINE, the end of the text or the position before a
    final newline; \<open>EndOfText\<close>: the end of the text, which \<open>re.fullmatch\<close> requires.
\<close>

datatype ahead_item = AChar "nat \<Rightarrow> bool" | ADollar

datatype node =
    One "nat \<Rightarrow> bool"
  | Star "nat \<Rightarrow> bool"
  | Opt "nat \<Rightarrow> bool"
  | LazyStar "nat \<Rightarrow> bool"
  | GroupOpen
  | GroupClose
  | Ahead "ahead_item list list"
  | Dollar
  | EndOfText

definition at_dollar :: "pystr \<Rightarrow> bool" where
  "at_dollar s = (s = [] \<or> s = [10])"

fun ahead_match :: "ahead_item list \<Rightarrow> pystr \<Rightarrow> bool" where
  "ahead_match [] s = True"
| "ahead_match (ADollar # items) s = (at_dollar s \<and> ahead_match items s)"
| "ahead_match (AChar p # items) [] = False"
| "ahead_match (AChar p # items) (c # cs) = (p c \<and> ahead_match items cs)"

text \<open>
  The state of a match attempt: the position reached in the text and the two ends of
  group 1, each unset until its parenthesis is passed.
\<close>

record mstate =
  pos :: nat
  g_start :: "nat option"
  g_end :: "nat option"

text \<open>
  \<open>match_here ns s st\<close> matches the pattern \<open>ns\<close> at the front of \<open>s\<close>, the rest of the
  text from position \<open>pos st\<close>, by backtracking in the order of Python's \<open>re\<close>: a greedy
  item first tries to take one more character, a lazy one first tries to stop. The
  result is the state at the end of the first match found.
\<close>

fun match_here :: "node list \<Rightarrow> pystr \<Rightarrow> mstate \<Rightarrow> mstate option" where
  "match_here [] s st = Some st"
| "match_here (One p # ns) [] st = None"
| "match_here (One p # ns) (c # cs) st =
     (if p c then match_here ns cs (st\<lparr>pos := pos st + 1\<rparr>) else None)"
| "match_here (Star p # ns) [] st = match_here ns [] st"
| "match_here (Star p # ns) (c # cs) st =
     (if p c then
        (case match_here (Star p # ns) cs (st\<lparr>pos := pos st + 1\<rparr>) of
           Some r \<Rightarrow> Some r
         | None \<Rightarrow> match_here ns (c # cs) st)
      else match_here ns (c # cs) st)"
| "match_here (Opt p # ns) [] st = match_here ns [] st"
| "match_here (Opt p # ns) (c # cs) st =
     (if p c then
        (case match_here ns cs (st\<lparr>pos := pos st + 1\<rparr>) of
           Some r \<Rightarrow> Some r
         | None \<Rightarrow> match_here ns (c # cs) st)
      else match_here ns (c # cs) st)"
| "match_here (LazyStar p # ns) [] st = match_here ns [] st"
| "match_here (LazyStar p # ns) (c # cs) st =
     (case match_here ns (c # cs) st of
        Some r \<Rightarrow> Some r
      | None \<Rightarrow>
          (if p c then match_here (LazyStar p # ns) cs (st\<lparr>pos := pos st + 1\<rparr>) else None))"
| "match_here (GroupOpen # ns) s st = match_here ns s (st\<lparr>g_start := Some (pos st)\<rparr>)"
| "match_here (GroupClose # ns) s st = match_here ns s (st\<lparr>g_end := Some (pos st)\<rparr>)"
| "match_here (Ahead alts # ns) s st =
     (if list_ex (\<lambda>alt. ahead_match alt s) alts then match_here ns s st else None)"
| "match_here (Dollar # ns) s st = (if at_dollar s then match_here ns s st else None)"
| "match_here (EndOfText # ns) s st = (if s = [] then match_here ns s st else None)"

text \<open>
  \<open>re.search\<close>: the match at the leftmost position of the text where one exists. The
  result is the start of the match and the state at its end.
\<close>

fun search_from :: "node list \<Rightarrow> pystr \<Rightarrow> nat \<Rightarrow> (nat \<times> mstate) option" where
  "search_from ns [] i =
     (case match_here ns [] \<lparr>pos = i, g_start = None, g_end = None\<rparr> of
        Some r \<Rightarrow> Some (i, r)
      | None \<Rightarrow> None)"
| "search_from ns (c # cs) i =
     (case match_here ns (c # cs) \<lparr>pos = i, g_start = None, g_end = None\<rparr> of
        Some r \<Rightarrow> Some (i, r)
      | None \<Rightarrow> search_from ns cs (i + 1))"

definition re_search :: "node list \<Rightarrow> pystr \<Rightarrow> (nat \<times> mstate) option" where
  "re_search ns s = search_from ns s 0"

definition re_fullmatch :: "node list \<Rightarrow> pystr \<Rightarrow> (nat \<times> mstate) option" where
  "re_fullmatch ns s =
     (case match_here (ns @ [EndOfText]) s \<lparr>pos = 0, g_start = None, g_end = None\<rparr> of
        Some r \<Rightarrow> Some (0, r)
      | None \<Rightarrow> None)"

text \<open>
  \<open>match.group(1)\<close> is the text between the ends of group 1, and \<open>None\<close> when the group
  took no part in the match.
\<close>

definition group1 :: "pystr \<Rightarrow> (nat \<times> mstate) \<Rightarrow> pystr option" where
  "group1 s m =
     (case (g_start (snd m), g_end (snd m)) of
        (Some a, Some b) \<Rightarrow> Some (take (b - a) (drop a s))
      | _ \<Rightarrow> None)"

text \<open>
  \<open>re.findall\<close> and \<open>re.sub\<close> walk the text from left to right over the matches that do
  not overlap. \<open>skip\<close> counts the characters still inside the match found last. The two
  patterns the program passes to them, \<open>\d\<close> and \<open>\s+\<close>, match no empty string, and a
  match of length 0 is treated here as no match.
\<close>

definition match_len :: "node list \<Rightarrow> pystr \<Rightarrow> nat option" where
  "match_len ns s =
     (case match_here ns s \<lparr>pos = 0, g_start = None, g_end = None\<rparr> of
        Some r \<Rightarrow> Some (pos r)
      | None \<Rightarrow> None)"

fun findall_from :: "node list \<Rightarrow> nat \<Rightarrow> pystr \<Rightarrow> pystr list" where
  "findall_from ns skip [] = []"
| "findall_from ns (Suc k) (c # cs) = findall_from ns k cs"
| "findall_from ns 0 (c # cs) =
     (case match_len ns (c # cs) of
        Some (Suc n) \<Rightarrow> take (Suc n) (c # cs) # findall_from ns n cs
      | _ \<Rightarrow> findall_from ns 0 cs)"

definition re_findall :: "node list \<Rightarrow> pystr \<Rightarrow> pystr list" where
  "re_findall ns s = findall_from ns 0 s"

fun sub_from :: "node list \<Rightarrow> pystr \<Rightarrow> nat \<Rightarrow> pystr \<Rightarrow> pystr" where
  "sub_from ns repl skip [] = []"
| "sub_from ns repl (Suc k) (c # cs) = sub_from ns repl k cs"
| "sub_from ns repl 0 (c # cs) =
     (case match_len ns (c # cs) of
        Some (Suc n) \<Rightarrow> repl @ sub_from ns repl n cs
      | _ \<Rightarrow> c # sub_from ns repl 0 cs)"

definition re_sub :: "node list \<Rightarrow> pystr \<Rightarrow> pystr \<Rightarrow> pystr" where
  "re_sub ns repl s = sub_from ns repl 0 s"

section \<open>Section segmenter\<close>

text \<open>
  The eight patterns of \<open>extract_8d_sections\<close>, compiled with DOTALL and IGNORECASE. Each
  of the first seven is the label, then \<open>[\.\s:]*\<close> with U+3001 and U+FF1A also in the
  class, then the group \<open>(.*?)\<close>, then a lookahead for the next label followed by one
  character of the same class, or for \<open>$\<close>; \<open>section_pattern U this next\<close> takes the
  digits of the two labels. The last pattern ends with \<open>$\<close> in place of the lookahead.
  Under IGNORECASE the letter \<open>D\<close> also matches \<open>d\<close>; the digits and the class have
  no cased member. Under DOTALL the dot matches every character.
\<close>

definition letter_D :: "nat \<Rightarrow> bool" where
  "letter_D c = (c = 68 \<or> c = 100)"

definition lit :: "nat \<Rightarrow> nat \<Rightarrow> bool" where
  "lit a c = (c = a)"

definition label_sep :: "unicode_db \<Rightarrow> nat \<Rightarrow> bool" where
  "label_sep U c = (c = 46 \<or> c = 0x3001 \<or> c = 58 \<or> c = 0xFF1A \<or> isspace U c)"

definition dot_all :: "nat \<Rightarrow> bool" where
  "dot_all c = True"

definition section_pattern :: "unicode_db \<Rightarrow> nat \<Rightarrow> nat \<Rightarrow> node list" where
  "section_pattern U this next =
     [One letter_D, One (lit this), Star (label_sep U),
      GroupOpen, LazyStar dot_all, GroupClose,
      Ahead [[AChar letter_D, AChar (lit next), AChar (label_sep U)], [ADollar]]]"

definition last_section_pattern :: "unicode_db \<Rightarrow> nat \<Rightarrow> node list" where
  "last_section_pattern U this =
     [One letter_D, One (lit this), Star (label_sep U),
      GroupOpen, LazyStar dot_all, GroupClose, Dollar]"

definition patterns :: "unicode_db \<Rightarrow> (node list \<times> pystr) list" where
  "patterns U =
     [(section_pattern U 49 50, cp ''D1''),
      (section_pattern U 50 51, cp ''D2''),
      (section_pattern U 51 52, cp ''D3''),
      (section_pattern U 52 53, cp ''D4''),
      (section_pattern U 53 54, cp ''D5''),
      (section_pattern U 54 55, cp ''D6''),
      (section_pattern U 55 56, cp ''D7''),
      (last_section_pattern U 56, cp ''D8'')]"

text \<open>Every pattern of the list has the two parentheses of group 1.\<close>

definition has_group :: "node list \<times> pystr \<Rightarrow> bool" where
  "has_group pl = (GroupOpen \<in> set (fst pl) \<and> GroupClose \<in> set (fst pl))"

type_synonym sections = "pystr \<rightharpoonup> pystr"

definition empty_sections :: sections where
  "empty_sections =
     [cp ''D1'' \<mapsto> [], cp ''D2'' \<mapsto> [], cp ''D3'' \<mapsto> [], cp ''D4'' \<mapsto> [],
      cp ''D5'' \<mapsto> [], cp ''D6'' \<mapsto> [], cp ''D7'' \<mapsto> [], cp ''D8'' \<mapsto> []]"

text \<open>
  The loop over the patterns. \<open>match.group(1).strip()\<close> raises AttributeError when
  group 1 is \<open>None\<close>.
\<close>

fun extract_loop :: "unicode_db \<Rightarrow> (node list \<times> pystr) list \<Rightarrow> pystr \<Rightarrow> sections \<Rightarrow> py_error + sections" where
  "extract_loop U [] doc_text secs = Inr secs"
| "extract_loop U ((pattern, section) # ps) doc_text secs =
     (case re_search pattern doc_text of
        None \<Rightarrow> extract_loop U ps doc_text secs
      | Some m \<Rightarrow>
          (case group1 doc_text m of
             None \<Rightarrow> Inl AttributeError
           | Some g \<Rightarrow> extract_loop U ps doc_text (secs(section \<mapsto> strip U g))))"

definition extract_8d_sections :: "unicode_db \<Rightarrow> pystr \<Rightarrow> py_error + sections" where
  "extract_8d_sections U doc_text = extract_loop U (patterns U) doc_text empty_sections"

section \<open>Evidence snippet selector\<close>

text \<open>The pattern \<open>\s+\<close> of the line normalisation and the pattern \<open>\d\<close>.\<close>

definition ws_run :: "unicode_db \<Rightarrow> node list" where
  "ws_run U = [One (isspace U), Star (isspace U)]"

definition one_digit :: "unicode_db \<Rightarrow> node list" where
  "one_digit U = [One (isdecimal U)]"

definition raw_lines :: "unicode_db \<Rightarrow> pystr \<Rightarrow> pystr list" where
  "raw_lines U text =
     map (\<lambda>ln. re_sub (ws_run U) (cp '' '') (strip U ln))
       (filter (\<lambda>ln. strip U ln \<noteq> []) (splitlines text))"

text \<open>
  The class of the pattern \<open>[A-Z0-9\s\-\(\)\[\]#:..]+\<close> of \<open>is_heading_like\<close>, whose
  last two members are U+00B7 and U+2022.
\<close>

definition heading_char :: "unicode_db \<Rightarrow> nat \<Rightarrow> bool" where
  "heading_char U c =
     ((65 \<le> c \<and> c \<le> 90) \<or> (48 \<le> c \<and> c \<le> 57) \<or> isspace U c \<or> c = 45 \<or> c = 40 \<or> c = 41
      \<or> c = 91 \<or> c = 93 \<or> c = 35 \<or> c = 58 \<or> c = 0xB7 \<or> c = 0x2022)"

definition heading_markers :: "pystr list" where
  "heading_markers =
     [cp ''(ICA)'', cp ''(PCA)'', cp ''Interim Containment'', cp ''Permanent Corrective'',
      cp ''Validation of'', cp ''System/Process Controls'']"

definition endswith :: "pystr \<Rightarrow> pystr \<Rightarrow> bool" where
  "endswith s x = (length x \<le> length s \<and> drop (length s - length x) s = x)"

text \<open>\<open>any(kw.lower() in line.lower() for kw in kws)\<close>, as every keyword test reads.\<close>

definition any_kw :: "unicode_db \<Rightarrow> pystr list \<Rightarrow> pystr \<Rightarrow> bool" where
  "any_kw U kws line = list_ex (\<lambda>kw. py_in (lower U kw) (lower U line)) kws"

definition is_heading_like :: "unicode_db \<Rightarrow> pystr \<Rightarrow> bool" where
  "is_heading_like U line =
     (if length line < 18 then True
      else if re_fullmatch [One (heading_char U), Star (heading_char U)] line \<noteq> None then True
      else if any_kw U heading_markers line \<and> length (re_findall (one_digit U) line) = 0 then True
      else if endswith line (cp '':'') \<and> length (re_findall (one_digit U) line) = 0 then True
      else False)"

definition unit_tokens :: "pystr list" where
  "unit_tokens =
     [cp ''%'', cp ''mpa'', cp ''pcs'', cp ''lot'', cp ''0/'', cp ''sop'', cp ''coa'', cp ''cpk'',
      cp ''ppm'']"

definition verb_tokens :: "pystr list" where
  "verb_tokens =
     [cp ''screen'', cp ''sort'', cp ''inspect'', cp ''segreg'', cp ''hold'', cp ''stop ship'',
      cp ''lock'', cp ''verify'', cp ''update'', cp ''train'', cp ''recipe'']"

text \<open>
  \<open>hits\<close> counts the preferred keywords that are not empty and occur in the line.
  \<open>preferred_keywords\<close> is \<open>None\<close> or a list, and is falsy when \<open>None\<close> or empty.
\<close>

definition hits :: "unicode_db \<Rightarrow> pystr list \<Rightarrow> pystr \<Rightarrow> int" where
  "hits U kws line = int (length (filter (\<lambda>kw. kw \<noteq> [] \<and> py_in (lower U kw) (lower U line)) kws))"

definition score :: "unicode_db \<Rightarrow> pystr list option \<Rightarrow> pystr \<Rightarrow> int" where
  "score U preferred_keywords line =
     (let s0 = 0;
          s1 = (case preferred_keywords of
                  None \<Rightarrow> s0
                | Some kws \<Rightarrow>
                    if kws \<noteq> [] then
                      (if hits U kws line \<noteq> 0 then s0 + (5 + min (hits U kws line) 3) else s0)
                    else s0);
          s2 = (if re_search (one_digit U) line \<noteq> None then s1 + 3 else s1);
          s3 = (if any_kw U unit_tokens line then s2 + 2 else s2);
          s4 = (if any_kw U verb_tokens line then s3 + 2 else s3);
          s5 = (if length line \<ge> 40 then s4 + 1 else s4)
      in s5)"

text \<open>
  \<open>max(xs, key=f)\<close>: the first element whose key is the greatest; ValueError on an
  empty list.
\<close>

fun max_from :: "('a \<Rightarrow> int) \<Rightarrow> 'a \<Rightarrow> 'a list \<Rightarrow> 'a" where
  "max_from key best [] = best"
| "max_from key best (x # xs) = max_from key (if key x > key best then x else best) xs"

definition py_max :: "('a \<Rightarrow> int) \<Rightarrow> 'a list \<Rightarrow> py_error + 'a" where
  "py_max key xs = (case xs of [] \<Rightarrow> Inl ValueError | x # rest \<Rightarrow> Inr (max_from key x rest))"

definition not_found :: pystr where
  "not_found = cp ''Not Found''"

definition candidates :: "unicode_db \<Rightarrow> pystr list \<Rightarrow> pystr list" where
  "candidates U lines =
     (let c = filter (\<lambda>ln. \<not> is_heading_like U ln) lines in if c = [] then lines else c)"

definition extract_evidence_snippet ::
  "unicode_db \<Rightarrow> pystr \<Rightarrow> int \<Rightarrow> pystr list option \<Rightarrow> py_error + pystr" where
  "extract_evidence_snippet U text max_len preferred_keywords =
     (if text = [] \<or> strip U text = [] then Inr not_found
      else if raw_lines U text = [] then Inr not_found
      else
        (case py_max (score U preferred_keywords) (candidates U (raw_lines U text)) of
           Inl e \<Rightarrow> Inl e
         | Inr snippet \<Rightarrow>
             if snippet = [] \<or> strip U snippet = [] then Inr not_found
             else if int (length snippet) > max_len
               then Inr (rstrip U (slice_to snippet (max_len - 3)) @ cp ''...'')
             else Inr snippet))"

section \<open>Rule evaluators\<close>

text \<open>
  Every evaluator returns a dictionary with the keys \<open>passed\<close> and \<open>comment\<close> and keys
  of its own: a record extending \<open>rule_result\<close>. A local variable of the source that
  has the name of a key is written with a prime.
\<close>

record rule_result =
  passed :: bool
  comment :: pystr

record d3_result = rule_result +
  found_locations :: "pystr list"
  missing_locations :: "pystr list"

record d4_result = rule_result +
  found_analysis :: "pystr list"
  missing_analysis :: "pystr list"
  has_system_analysis :: bool

record issues_result = rule_result +
  issues :: "pystr list"

record d5_result = issues_result +
  has_measures :: bool
  has_owner :: bool
  has_deadline :: bool

record d6_result = issues_result +
  has_production_verification :: bool
  has_experiment_verification :: bool
  has_data :: bool

record d7_result = issues_result +
  has_doc_revision :: bool
  has_training :: bool

record d8_result = rule_result +
  has_summary :: bool

text \<open>
  The loop of \<open>review_d3\<close> and \<open>review_d4\<close> over the items of the keyword dictionary, in
  the order they are written: \<open>found\<close> is a dictionary in insertion order, \<open>missing\<close> a
  list.
\<close>

fun category_loop ::
  "unicode_db \<Rightarrow> (pystr \<times> pystr list) list \<Rightarrow> pystr \<Rightarrow> (pystr \<times> bool) list \<Rightarrow> pystr list
   \<Rightarrow> (pystr \<times> bool) list \<times> pystr list" where
  "category_loop U [] content found missing = (found, missing)"
| "category_loop U ((location, kws) # rest) content found missing =
     (let found' = AList.update location (any_kw U kws content) found;
          missing' = (if map_of found' location \<noteq> Some True then missing @ [location] else missing)
      in category_loop U rest content found' missing')"

definition d3_keywords :: "(pystr \<times> pystr list) list" where
  "d3_keywords =
     [(cp ''WIP'',
        [[0x5728, 0x5236], [0x6B63, 0x5728, 0x751F, 0x4EA7], [0x751F, 0x4EA7, 0x4E2D],
         [0x5728, 0x4EA7], cp ''WIP'', cp ''production'', cp ''in-process'']),
      (cp ''In-transit'',
        [[0x5728, 0x9014], [0x8FD0, 0x8F93, 0x4E2D], [0x7269, 0x6D41], [0x53D1, 0x8FD0],
         cp ''transit'', cp ''shipping'', cp ''shipment'']),
      (cp ''Customer Site'',
        [[0x5BA2, 0x6237, 0x73B0, 0x573A], [0x5BA2, 0x6237, 0x5904], [0x5BA2, 0x6237, 0x7AEF],
         [0x73B0, 0x573A], cp ''customer site'', cp ''on-site'', cp ''onsite'']),
      (cp ''Customer Stock'',
        [[0x5BA2, 0x6237, 0x5E93, 0x5B58], [0x5BA2, 0x6237, 0x4ED3, 0x5E93],
         [0x5BA2, 0x6237, 0x5904, 0x5E93, 0x5B58], cp ''customer stock'',
         cp ''customer warehouse'']),
      (cp ''Internal Stock'',
        [[0x6211, 0x53F8], [0x672C, 0x53F8], [0x516C, 0x53F8], [0x4ED3, 0x5E93], [0x4EA7, 0x7EBF],
         [0x8F66, 0x95F4], cp ''internal stock'', cp ''internal inventory'', cp ''warehouse'',
         cp ''stock'', cp ''inventory''])]"

definition review_d3 :: "unicode_db \<Rightarrow> pystr \<Rightarrow> d3_result" where
  "review_d3 U content =
     (let (found, missing) = category_loop U d3_keywords content [] [];
          passed' = (length missing = 0)
      in \<lparr>passed = passed',
          comment = (if passed' then cp ''Pass''
                     else cp ''Missing containment for: '' @ join (cp '', '') missing),
          found_locations = map fst (filter snd found),
          missing_locations = missing\<rparr>)"

definition d4_checks :: "(pystr \<times> pystr list) list" where
  "d4_checks =
     [(cp ''Mechanism'',
        [[0x53D1, 0x751F, 0x673A, 0x5236], [0x600E, 0x4E48, 0x53D1, 0x751F],
         [0x53D1, 0x751F, 0x8FC7, 0x7A0B], [0x53D1, 0x751F, 0x539F, 0x56E0], [0x673A, 0x7406],
         cp ''mechanism'', cp ''how it happened'', cp ''occurrence'']),
      (cp ''Root Cause'',
        [[0x4EA7, 0x751F, 0x539F, 0x56E0], [0x6839, 0x672C, 0x539F, 0x56E0],
         [0x5DE5, 0x827A, 0x539F, 0x56E0], [0x771F, 0x56E0], [0x6839, 0x56E0],
         [0x4E3A, 0x4EC0, 0x4E48, 0x4EA7, 0x751F], cp ''root cause'', cp ''why it happened'']),
      (cp ''Escape Point'',
        [[0x6D41, 0x51FA, 0x539F, 0x56E0], [0x6D41, 0x51FA], [0x672A, 0x68C0, 0x51FA],
         [0x672A, 0x62E6, 0x622A], [0x6F0F, 0x68C0], [0x4E3A, 0x4EC0, 0x4E48, 0x6D41, 0x51FA],
         cp ''escape'', cp ''detection failure'', cp ''why it was not detected''])]"

definition system_keywords :: "pystr list" where
  "system_keywords =
     [[0x7CFB, 0x7EDF, 0x539F, 0x56E0], [0x7BA1, 0x7406, 0x539F, 0x56E0], [0x5236, 0x5EA6],
      [0x6D41, 0x7A0B, 0x7F3A, 0x9677], [0x7CFB, 0x7EDF, 0x6027], cp ''system'', cp ''management'',
      cp ''procedure'', cp ''policy'']"

definition review_d4 :: "unicode_db \<Rightarrow> pystr \<Rightarrow> d4_result" where
  "review_d4 U content =
     (let (found, missing) = category_loop U d4_checks content [] [];
          has_system_analysis' = any_kw U system_keywords content;
          passed' = (length missing = 0);
          comment' = (if \<not> passed' then cp ''Missing analysis for: '' @ join (cp '', '') missing
                     else if has_system_analysis' then cp ''Pass (Bonus: Systemic analysis included)''
                     else cp ''Pass'')
      in \<lparr>passed = passed', comment = comment',
          found_analysis = map fst (filter snd found),
          missing_analysis = missing,
          has_system_analysis = has_system_analysis'\<rparr>)"

definition measure_keywords :: "pystr list" where
  "measure_keywords =
     [[0x63AA, 0x65BD], [0x6539, 0x5584], [0x5BF9, 0x7B56], [0x7EA0, 0x6B63], [0x6539, 0x8FDB],
      [0x6574, 0x6539], cp ''action'', cp ''measure'', cp ''correction'', cp ''fix'']"

definition owner_keywords :: "pystr list" where
  "owner_keywords =
     [[0x8D23, 0x4EFB, 0x4EBA], [0x8D1F, 0x8D23, 0x4EBA], [0x6267, 0x884C, 0x4EBA],
      [0x62C5, 0x5F53], cp ''owner'', cp ''responsible'', cp ''person'', cp ''lead'']"

definition deadline_keywords :: "pystr list" where
  "deadline_keywords =
     [[0x5B8C, 0x6210, 0x65F6, 0x95F4], [0x671F, 0x9650], [0x65E5, 0x671F], [0x6708], [0x65E5],
      cp ''date'', cp ''deadline'', cp ''due'', cp ''time'']"

text \<open>\<open>f"Issues: {'; '.join(issues)}"\<close>, the comment of a result that did not pass.\<close>

definition issues_comment :: "bool \<Rightarrow> pystr list \<Rightarrow> pystr" where
  "issues_comment passed' issues' =
     (if passed' then cp ''Pass'' else cp ''Issues: '' @ join (cp ''; '') issues')"

definition review_d5 :: "unicode_db \<Rightarrow> pystr \<Rightarrow> pystr \<Rightarrow> d5_result" where
  "review_d5 U content d4_content =
     (let has_measures' = any_kw U measure_keywords content;
          has_owner' = any_kw U owner_keywords content;
          has_deadline' = any_kw U deadline_keywords content;
          issues' = [];
          issues' = (if \<not> has_measures' then issues' @ [cp ''No specific actions described''] else issues');
          issues' = (if \<not> has_owner' then issues' @ [cp ''Missing owner''] else issues');
          issues' = (if \<not> has_deadline' then issues' @ [cp ''Missing deadline''] else issues');
          passed' = (length issues' = 0)
      in \<lparr>passed = passed', comment = issues_comment passed' issues', issues = issues',
          has_measures = has_measures', has_owner = has_owner', has_deadline = has_deadline'\<rparr>)"

definition production_keywords :: "pystr list" where
  "production_keywords =
     [[0x751F, 0x4EA7, 0x9A8C, 0x8BC1], [0x6279, 0x91CF, 0x9A8C, 0x8BC1], [0x91CF, 0x4EA7],
      [0x751F, 0x4EA7, 0x6570, 0x636E], [0x826F, 0x7387], cp ''production'', cp ''run'',
      cp ''batch'', cp ''manufacturing'']"

definition experiment_keywords :: "pystr list" where
  "experiment_keywords =
     [[0x5B9E, 0x9A8C, 0x9A8C, 0x8BC1], [0x6D4B, 0x8BD5], [0x8BD5, 0x9A8C], cp ''CPK'',
      [0x6570, 0x636E], [0x5408, 0x683C, 0x7387], cp ''experiment'', cp ''test'', cp ''trial'',
      cp ''lab'']"

definition data_keywords :: "pystr list" where
  "data_keywords =
     [cp ''OK'', [0x5408, 0x683C], [0x901A, 0x8FC7], [0x8FBE, 0x6807], cp ''pass'', cp ''accepted'',
      cp ''good'']"

text \<open>
  The pattern \<open>\d+\.?\d*\s*[%.]\<close> of \<open>review_d6\<close>, whose class holds the percent sign
  and its full-width form U+FF05.
\<close>

definition percent_char :: "nat \<Rightarrow> bool" where
  "percent_char c = (c = 37 \<or> c = 0xFF05)"

definition percent_pattern :: "unicode_db \<Rightarrow> node list" where
  "percent_pattern U =
     [One (isdecimal U), Star (isdecimal U), Opt (lit 46), Star (isdecimal U), Star (isspace U),
      One percent_char]"

definition review_d6 :: "unicode_db \<Rightarrow> pystr \<Rightarrow> d6_result" where
  "review_d6 U content =
     (let has_production = any_kw U production_keywords content;
          has_experiment = any_kw U experiment_keywords content;
          has_data' = (re_search (percent_pattern U) content \<noteq> None \<or> any_kw U data_keywords content);
          passed' = ((has_production \<or> has_experiment) \<and> has_data');
          issues' = [];
          issues' = (if \<not> (has_production \<or> has_experiment)
                    then issues' @ [cp ''Validation method not specified (Production or Experiment)'']
                    else issues');
          issues' = (if \<not> has_data' then issues' @ [cp ''No validation data provided''] else issues')
      in \<lparr>passed = passed', comment = issues_comment passed' issues', issues = issues',
          has_production_verification = has_production,
          has_experiment_verification = has_experiment,
          has_data = has_data'\<rparr>)"

definition doc_keywords :: "pystr list" where
  "doc_keywords =
     [[0x6587, 0x4EF6], [0x6807, 0x51C6], [0x89C4, 0x8303], cp ''SOP'',
      [0x4F5C, 0x4E1A, 0x6307, 0x5BFC, 0x4E66], [0x68C0, 0x9A8C, 0x6807, 0x51C6], [0x4FEE, 0x8BA2],
      [0x66F4, 0x65B0], cp ''document'', cp ''standard'', cp ''procedure'', cp ''instruction'',
      cp ''revise'', cp ''update'']"

definition training_keywords :: "pystr list" where
  "training_keywords =
     [[0x57F9, 0x8BAD], [0x5B66, 0x4E60], [0x6559, 0x80B2], [0x5BA3, 0x8D2F],
      [0x57F9, 0x8BAD, 0x8BB0, 0x5F55], cp ''train'', cp ''educate'', cp ''lesson'', cp ''teach'']"

definition review_d7 :: "unicode_db \<Rightarrow> pystr \<Rightarrow> d7_result" where
  "review_d7 U content =
     (let has_doc_revision' = any_kw U doc_keywords content;
          has_training' = any_kw U training_keywords content;
          passed' = (has_doc_revision' \<and> has_training');
          issues' = [];
          issues' = (if \<not> has_doc_revision' then issues' @ [cp ''Missing document revision''] else issues');
          issues' = (if \<not> has_training' then issues' @ [cp ''Missing training''] else issues')
      in \<lparr>passed = passed', comment = issues_comment passed' issues', issues = issues',
          has_doc_revision = has_doc_revision', has_training = has_training'\<rparr>)"

definition summary_keywords :: "pystr list" where
  "summary_keywords =
     [[0x603B, 0x7ED3], [0x7ECF, 0x9A8C], [0x6559, 0x8BAD], [0x5FC3, 0x5F97], [0x611F, 0x8C22],
      [0x8868, 0x5F70], [0x5173, 0x95ED], cp ''summary'', cp ''lesson'', cp ''thank'',
      cp ''recognize'', cp ''close'', cp ''team'']"

definition review_d8 :: "unicode_db \<Rightarrow> pystr \<Rightarrow> d8_result" where
  "review_d8 U content =
     (let has_summary' = any_kw U summary_keywords content
      in \<lparr>passed = True,
          comment = (if has_summary' then cp ''Pass''
                     else cp ''Suggestion: Add team recognition or lessons learned''),
          has_summary = has_summary'\<rparr>)"

section \<open>Verdict\<close>

text \<open>
  The dictionary \<open>reviews\<close> of \<open>review_8d_report\<close> holds one result of each shape, and
  \<open>reviews[s]["passed"]\<close> reads the field every shape has.
\<close>

datatype review =
    D3Review d3_result
  | D4Review d4_result
  | D5Review d5_result
  | D6Review d6_result
  | D7Review d7_result
  | D8Review d8_result

fun review_passed :: "review \<Rightarrow> bool" where
  "review_passed (D3Review r) = passed r"
| "review_passed (D4Review r) = passed r"
| "review_passed (D5Review r) = passed r"
| "review_passed (D6Review r) = passed r"
| "review_passed (D7Review r) = passed r"
| "review_passed (D8Review r) = passed r"

type_synonym reviews = "pystr \<rightharpoonup> review"

definition critical_sections :: "pystr list" where
  "critical_sections = [cp ''D3'', cp ''D4'', cp ''D5'', cp ''D6'', cp ''D7'']"

text \<open>
  \<open>[s for s in critical_sections if not reviews[s]["passed"]]\<close>; a label that is not a
  key of \<open>reviews\<close> raises KeyError.
\<close>

fun failed_among :: "reviews \<Rightarrow> pystr list \<Rightarrow> py_error + pystr list" where
  "failed_among reviews [] = Inr []"
| "failed_among reviews (s # ss) =
     (case reviews s of
        None \<Rightarrow> Inl KeyError
      | Some r \<Rightarrow>
          (case failed_among reviews ss of
             Inl e \<Rightarrow> Inl e
           | Inr fs \<Rightarrow> Inr (if \<not> review_passed r then s # fs else fs)))"

record verdict_result =
  verdict :: pystr
  overall_passed :: bool
  failed_sections :: "pystr list"

text \<open>
  The verdict of \<open>review_8d_report\<close> from the dictionary of reviews. The two verdict
  texts start with U+2705 and U+274C.
\<close>

definition review_verdict :: "reviews \<Rightarrow> py_error + verdict_result" where
  "review_verdict reviews =
     (case failed_among reviews critical_sections of
        Inl e \<Rightarrow> Inl e
      | Inr failed \<Rightarrow>
          (let overall = (length failed = 0)
           in Inr \<lparr>verdict = (if overall then 0x2705 # cp '' 8D Report APPROVED''
                               else 0x274C # cp '' 8D Report REJECTED''),
                   overall_passed = overall,
                   failed_sections = failed\<rparr>))"

text \<open>The dictionary \<open>reviews\<close> as \<open>review_8d_report\<close> builds it, from six results.\<close>

definition make_reviews :: "review \<Rightarrow> review \<Rightarrow> review \<Rightarrow> review \<Rightarrow> review \<Rightarrow> review \<Rightarrow> reviews" where
  "make_reviews r3 r4 r5 r6 r7 r8 =
     [cp ''D3'' \<mapsto> r3, cp ''D4'' \<mapsto> r4, cp ''D5'' \<mapsto> r5, cp ''D6'' \<mapsto> r6, cp ''D7'' \<mapsto> r7,
      cp ''D8'' \<mapsto> r8]"

text \<open>
  \<open>review_8d_report\<close> from the sections of the document on: the six reviews, then the
  verdict. \<open>sections[k]\<close> raises KeyError when the key is missing.
\<close>

definition section_of :: "sections \<Rightarrow> pystr \<Rightarrow> py_error + pystr" where
  "section_of secs k = (case secs k of None \<Rightarrow> Inl KeyError | Some v \<Rightarrow> Inr v)"

definition run_reviews :: "unicode_db \<Rightarrow> sections \<Rightarrow> py_error + reviews" where
  "run_reviews U secs =
     (case (section_of secs (cp ''D3''), section_of secs (cp ''D4''), section_of secs (cp ''D5''),
            section_of secs (cp ''D6''), section_of secs (cp ''D7''), section_of secs (cp ''D8'')) of
        (Inr s3, Inr s4, Inr s5, Inr s6, Inr s7, Inr s8) \<Rightarrow>
          Inr (make_reviews (D3Review (review_d3 U s3)) (D4Review (review_d4 U s4))
                 (D5Review (review_d5 U s5 s4)) (D6Review (review_d6 U s6))
                 (D7Review (review_d7 U s7)) (D8Review (review_d8 U s8)))
      | _ \<Rightarrow> Inl KeyError)"

definition review_8d_report :: "unicode_db \<Rightarrow> sections \<Rightarrow> py_error + (reviews \<times> verdict_result)" where
  "review_8d_report U secs =
     (case run_reviews U secs of
        Inl e \<Rightarrow> Inl e
      | Inr reviews \<Rightarrow>
          (case review_verdict reviews of Inl e \<Rightarrow> Inl e | Inr v \<Rightarrow> Inr (reviews, v)))"

section \<open>A character table for concrete inputs\<close>

text \<open>
  The table that knows no white space, no digit and no cased letter beyond ASCII. On
  ASCII text no table is consulted, so that every table gives the results computed
  with this one.
\<close>

definition ascii_db :: unicode_db where
  "ascii_db = \<lparr>ws_hi = (\<lambda>c. False), nd_hi = (\<lambda>c. False), lower_hi = (\<lambda>s i. [s ! i])\<rparr>"

section \<open>Strings and keyword tests\<close>

lemma py_in_sublist: "py_in needle hay = sublist needle hay"
  by (induction hay) (auto simp: sublist_Cons_right)

lemma any_kw_sublist:
  "any_kw U kws line = (\<exists>kw \<in> set kws. sublist (lower U kw) (lower U line))"
  by (simp add: any_kw_def list_ex_iff py_in_sublist)

lemma concat_singletons: "concat (map (\<lambda>i. [f i]) xs) = map f xs"
  by (induction xs) auto

lemma lower_ascii: "list_all (\<lambda>c. c < 128) s \<Longrightarrow> lower U s = map ascii_lower s"
proof -
  assume a: "list_all (\<lambda>c. c < 128) s"
  have h: "map (lower_at U s) [0..<length s] = map (\<lambda>i. [ascii_lower (s ! i)]) [0..<length s]"
    using a by (auto simp: lower_at_def list_all_length)
  have "lower U s = concat (map (\<lambda>i. [ascii_lower (s ! i)]) [0..<length s])"
    unfolding lower_def by (simp only: h)
  also have "\<dots> = map (\<lambda>i. ascii_lower (s ! i)) [0..<length s]"
    by (rule concat_singletons)
  also have "\<dots> = map ascii_lower (map ((!) s) [0..<length s])"
    by simp
  finally show ?thesis by (simp only: map_nth)
qed

lemmas ascii_eval = cp_def lower_ascii ascii_lower_def

lemma lower_OK: "lower U (cp ''OK'') = cp ''ok''"
  by (simp add: ascii_eval)

section \<open>The verdict\<close>

text \<open>
  Claim C1. For every six results under the labels D3 to D8, the verdict is computed,
  \<open>overall_passed\<close> holds exactly when the results of D3, D4, D5, D6 and D7 each
  passed, \<open>failed_sections\<close> lists in the order D3, D4, D5, D6, D7 the labels among
  them whose result did not pass, and replacing the result of D8 changes neither.
\<close>

theorem verdict_rule:
  "\<exists>v. review_verdict (make_reviews r3 r4 r5 r6 r7 r8) = Inr v
     \<and> overall_passed v =
         (review_passed r3 \<and> review_passed r4 \<and> review_passed r5 \<and> review_passed r6 \<and> review_passed r7)
     \<and> failed_sections v =
         map fst (filter (\<lambda>p. \<not> review_passed (snd p))
           [(cp ''D3'', r3), (cp ''D4'', r4), (cp ''D5'', r5), (cp ''D6'', r6), (cp ''D7'', r7)])
     \<and> (\<forall>r8'. \<exists>v'. review_verdict (make_reviews r3 r4 r5 r6 r7 r8') = Inr v'
           \<and> overall_passed v' = overall_passed v \<and> failed_sections v' = failed_sections v)"
  by (simp add: review_verdict_def make_reviews_def critical_sections_def cp_def Let_def)

theorem verdict_rule_witness:
  "\<exists>v. review_verdict
          (make_reviews (D3Review (review_d3 ascii_db (cp ''WIP on hold'')))
             (D4Review (review_d4 ascii_db (cp ''mechanism, root cause and escape point'')))
             (D5Review (review_d5 ascii_db (cp ''fix by owner, due soon'') []))
             (D6Review (review_d6 ascii_db (cp ''lab test passed'')))
             (D7Review (review_d7 ascii_db (cp ''SOP revised'')))
             (D8Review (review_d8 ascii_db []))) = Inr v
     \<and> \<not> overall_passed v \<and> failed_sections v = [cp ''D3'', cp ''D7'']"
proof -
  let ?r3 = "D3Review (review_d3 ascii_db (cp ''WIP on hold''))"
  let ?r4 = "D4Review (review_d4 ascii_db (cp ''mechanism, root cause and escape point''))"
  let ?r5 = "D5Review (review_d5 ascii_db (cp ''fix by owner, due soon'') [])"
  let ?r6 = "D6Review (review_d6 ascii_db (cp ''lab test passed''))"
  let ?r7 = "D7Review (review_d7 ascii_db (cp ''SOP revised''))"
  let ?r8 = "D8Review (review_d8 ascii_db [])"
  have p3: "\<not> review_passed ?r3" by code_simp
  have p4: "review_passed ?r4" by code_simp
  have p5: "review_passed ?r5" by code_simp
  have p6: "review_passed ?r6" by code_simp
  have p7: "\<not> review_passed ?r7" by code_simp
  from verdict_rule [of ?r3 ?r4 ?r5 ?r6 ?r7 ?r8] obtain v where
    v: "review_verdict (make_reviews ?r3 ?r4 ?r5 ?r6 ?r7 ?r8) = Inr v" and
    o: "overall_passed v =
          (review_passed ?r3 \<and> review_passed ?r4 \<and> review_passed ?r5 \<and> review_passed ?r6
           \<and> review_passed ?r7)" and
    f: "failed_sections v =
          map fst (filter (\<lambda>p. \<not> review_passed (snd p))
            [(cp ''D3'', ?r3), (cp ''D4'', ?r4), (cp ''D5'', ?r5), (cp ''D6'', ?r6), (cp ''D7'', ?r7)])"
    by blast
  from o p3 have "\<not> overall_passed v" by simp
  moreover from f p3 p4 p5 p6 p7 have "failed_sections v = [cp ''D3'', cp ''D7'']" by simp
  ultimately show ?thesis using v by blast
qed

section \<open>The evaluators of D3, D5 and D6\<close>

lemma update_fresh: "k \<notin> fst ` set al \<Longrightarrow> AList.update k v al = al @ [(k, v)]"
  by (induction al) auto

lemma category_loop_closed:
  "distinct (map fst found @ map fst cats) \<Longrightarrow>
   category_loop U cats content found missing =
     (found @ map (\<lambda>c. (fst c, any_kw U (snd c) content)) cats,
      missing @ map fst (filter (\<lambda>c. \<not> any_kw U (snd c) content) cats))"
proof (induction cats arbitrary: found missing)
  case Nil
  then show ?case by simp
next
  case (Cons c cats)
  obtain location kws where c: "c = (location, kws)" by (cases c)
  from Cons.prems c have fresh: "location \<notin> fst ` set found" by auto
  from Cons.prems c have d: "distinct (map fst (found @ [(location, any_kw U kws content)]) @ map fst cats)"
    by auto
  have look: "map_of (AList.update location (any_kw U kws content) found) location
                = Some (any_kw U kws content)"
    by (simp add: update_conv')
  have "category_loop U (c # cats) content found missing =
          category_loop U cats content (found @ [(location, any_kw U kws content)])
            (if \<not> any_kw U kws content then missing @ [location] else missing)"
    unfolding c category_loop.simps Let_def look
    by (simp add: update_fresh [OF fresh])
  then show ?case
    using Cons.IH [OF d] by (simp add: c)
qed

lemma d3_keys: "map fst d3_keywords =
   [cp ''WIP'', cp ''In-transit'', cp ''Customer Site'', cp ''Customer Stock'', cp ''Internal Stock'']"
  by (simp add: d3_keywords_def)

lemma d3_distinct: "distinct (map fst d3_keywords)"
  by (simp add: d3_keys cp_def)

lemma d3_loop:
  "category_loop U d3_keywords content [] [] =
     (map (\<lambda>c. (fst c, any_kw U (snd c) content)) d3_keywords,
      map fst (filter (\<lambda>c. \<not> any_kw U (snd c) content) d3_keywords))"
  using category_loop_closed [of "[]" d3_keywords U content "[]"] d3_distinct by simp

lemma found_filter: "map fst (filter snd (map (\<lambda>c. (fst c, P c)) cats)) = map fst (filter P cats)"
  by (induction cats) auto

text \<open>
  Claim C3. The D3 result passes exactly when each of the five categories WIP,
  In-transit, Customer Site, Customer Stock and Internal Stock has a keyword whose
  lower-case form occurs in the lower-case form of the content; \<open>found_locations\<close>
  are the categories with such a keyword, \<open>missing_locations\<close> the others, both in
  that order, so that the missing ones are the five without the found ones.
\<close>

theorem d3_rule:
  "passed (review_d3 U content) =
     (\<forall>c \<in> set d3_keywords. \<exists>kw \<in> set (snd c). sublist (lower U kw) (lower U content))
   \<and> map fst d3_keywords =
       [cp ''WIP'', cp ''In-transit'', cp ''Customer Site'', cp ''Customer Stock'', cp ''Internal Stock'']
   \<and> found_locations (review_d3 U content) =
       map fst (filter (\<lambda>c. \<exists>kw \<in> set (snd c). sublist (lower U kw) (lower U content)) d3_keywords)
   \<and> missing_locations (review_d3 U content) =
       map fst (filter (\<lambda>c. \<not> (\<exists>kw \<in> set (snd c). sublist (lower U kw) (lower U content))) d3_keywords)
   \<and> set (missing_locations (review_d3 U content)) =
       set (map fst d3_keywords) - set (found_locations (review_d3 U content))"
proof -
  let ?P = "\<lambda>c. any_kw U (snd c) content"
  have f: "found_locations (review_d3 U content) = map fst (filter ?P d3_keywords)"
    by (simp add: review_d3_def d3_loop found_filter Let_def)
  have m: "missing_locations (review_d3 U content) = map fst (filter (\<lambda>c. \<not> ?P c) d3_keywords)"
    by (simp add: review_d3_def d3_loop Let_def)
  have p: "passed (review_d3 U content) = (\<forall>c \<in> set d3_keywords. ?P c)"
    by (simp add: review_d3_def d3_loop filter_empty_conv Let_def)
  have inj: "inj_on fst (set d3_keywords)"
    using d3_distinct by (simp add: distinct_map)
  have "set (map fst (filter (\<lambda>c. \<not> ?P c) d3_keywords)) =
        set (map fst d3_keywords) - set (map fst (filter ?P d3_keywords))"
    using inj by (auto simp: inj_on_def) 
  with f m have c: "set (missing_locations (review_d3 U content)) =
       set (map fst d3_keywords) - set (found_locations (review_d3 U content))" by simp
  show ?thesis
    using f m p c d3_keys by (simp add: any_kw_sublist)
qed


theorem d3_rule_witness:
  "\<not> passed (review_d3 ascii_db (cp ''WIP held; shipment stopped; on-site sorted''))
   \<and> found_locations (review_d3 ascii_db (cp ''WIP held; shipment stopped; on-site sorted'')) =
       [cp ''WIP'', cp ''In-transit'', cp ''Customer Site'']
   \<and> set (missing_locations (review_d3 ascii_db (cp ''WIP held; shipment stopped; on-site sorted''))) =
       {cp ''Customer Stock'', cp ''Internal Stock''}"
proof -
  let ?x = "cp ''WIP held; shipment stopped; on-site sorted''"
  have f: "map fst (filter (\<lambda>c. \<exists>kw \<in> set (snd c). sublist (lower ascii_db kw) (lower ascii_db ?x))
             d3_keywords) = [cp ''WIP'', cp ''In-transit'', cp ''Customer Site'']"
    by code_simp
  have m: "map fst (filter (\<lambda>c. \<not> (\<exists>kw \<in> set (snd c). sublist (lower ascii_db kw) (lower ascii_db ?x)))
             d3_keywords) = [cp ''Customer Stock'', cp ''Internal Stock'']"
    by code_simp
  have p: "\<not> (\<forall>c \<in> set d3_keywords. \<exists>kw \<in> set (snd c). sublist (lower ascii_db kw) (lower ascii_db ?x))"
    by code_simp
  show ?thesis
    using d3_rule [of ascii_db ?x] f m p by simp
qed

text \<open>
  Claim C8. The D5 result does not depend on the text passed for D4: with the same D5
  text, any two D4 texts give the same result.
\<close>

theorem d5_ignores_d4: "review_d5 U content d4a = review_d5 U content d4b"
  by (simp add: review_d5_def)

theorem d5_ignores_d4_witness:
  "review_d5 ascii_db (cp ''fix by owner, due soon'') (cp ''root cause: worn tool'') =
   review_d5 ascii_db (cp ''fix by owner, due soon'') []"
  by (rule d5_ignores_d4)

text \<open>
  Claim C2. The D6 result passes exactly when production or experiment verification
  was found and data was found; data is found exactly when the percent pattern matches
  somewhere in the content or a keyword of the fixed list occurs, in lower case, in the
  lower-case form of the content.
\<close>

theorem d6_rule:
  "passed (review_d6 U content) =
     ((has_production_verification (review_d6 U content) \<or> has_experiment_verification (review_d6 U content))
      \<and> has_data (review_d6 U content))
   \<and> has_data (review_d6 U content) =
     (re_search (percent_pattern U) content \<noteq> None
      \<or> (\<exists>kw \<in> set data_keywords. sublist (lower U kw) (lower U content)))"
  by (simp add: review_d6_def Let_def any_kw_sublist)

theorem d6_rule_witness:
  "passed (review_d6 ascii_db (cp ''production run of 3 lots, yield 99.5 %''))
   \<and> has_data (review_d6 ascii_db (cp ''production run of 3 lots, yield 99.5 %''))
   \<and> re_search (percent_pattern ascii_db) (cp ''production run of 3 lots, yield 99.5 %'') \<noteq> None
   \<and> \<not> (\<exists>kw \<in> set data_keywords.
           sublist (lower ascii_db kw) (lower ascii_db (cp ''production run of 3 lots, yield 99.5 %'')))"
proof -
  let ?x = "cp ''production run of 3 lots, yield 99.5 %''"
  have r: "re_search (percent_pattern ascii_db) ?x \<noteq> None"
    by code_simp
  have k: "\<not> (\<exists>kw \<in> set data_keywords. sublist (lower ascii_db kw) (lower ascii_db ?x))"
    by code_simp
  have v: "has_production_verification (review_d6 ascii_db ?x)"
    by code_simp
  show ?thesis
    using d6_rule [of ascii_db ?x] r k v by simp
qed

text \<open>
  Claim C10. Whenever the lower-case form of the content contains \<open>ok\<close>, the D6 result
  reports data, also when \<open>ok\<close> lies inside another word.
\<close>

theorem d6_ok_substring:
  "sublist (cp ''ok'') (lower U content) \<Longrightarrow> has_data (review_d6 U content)"
  by (simp add: review_d6_def Let_def any_kw_sublist data_keywords_def lower_OK)

theorem d6_ok_substring_witness:
  "sublist (cp ''ok'') (lower ascii_db (cp ''the token was broken''))
   \<and> has_data (review_d6 ascii_db (cp ''the token was broken''))"
proof -
  have h: "sublist (cp ''ok'') (lower ascii_db (cp ''the token was broken''))"
    by code_simp
  show ?thesis
    using h d6_ok_substring [OF h] by simp
qed

section \<open>The score of a line\<close>

text \<open>
  Claim C9, as the code has it. With a list of preferred keywords, the score of a line
  is its score without the list plus, when \<open>h > 0\<close> of the keywords occur in the line,
  \<open>5 + min h 3\<close>: 6 for one hit, 7 for two, 8 for three or more. With no hit nothing is
  added.
\<close>

theorem score_keyword_rule:
  "score U (Some kws) line =
     score U None line + (if hits U kws line = 0 then 0 else 5 + min (hits U kws line) 3)"
  by (simp add: score_def Let_def hits_def)

theorem score_keyword_rule_witness:
  "hits ascii_db [cp ''lot'', cp ''ppm'', cp ''week''] (cp ''lot 7 at 120 ppm'') = 2
   \<and> score ascii_db (Some [cp ''lot'', cp ''ppm'', cp ''week'']) (cp ''lot 7 at 120 ppm'') =
       score ascii_db None (cp ''lot 7 at 120 ppm'') + 7"
proof -
  have h: "hits ascii_db [cp ''lot'', cp ''ppm'', cp ''week''] (cp ''lot 7 at 120 ppm'') = 2"
    by code_simp
  show ?thesis
    using score_keyword_rule [of ascii_db "[cp ''lot'', cp ''ppm'', cp ''week'']" "cp ''lot 7 at 120 ppm''"] h
    by simp
qed

text \<open>
  A line with exactly one hit: the keyword rule adds 6 to its score, not 5.
\<close>

theorem score_one_hit_counterexample:
  "hits ascii_db [cp ''lot''] (cp ''lot 7'') = 1
   \<and> score ascii_db (Some [cp ''lot'']) (cp ''lot 7'') = score ascii_db None (cp ''lot 7'') + 6
   \<and> score ascii_db (Some [cp ''lot'']) (cp ''lot 7'') \<noteq> score ascii_db None (cp ''lot 7'') + 5"
  by code_simp

section \<open>The section segmenter\<close>

lemma match_here_group:
  "match_here ns s st = Some r \<Longrightarrow>
     ((GroupOpen \<in> set ns \<or> g_start st \<noteq> None) \<longrightarrow> g_start r \<noteq> None)
   \<and> ((GroupClose \<in> set ns \<or> g_end st \<noteq> None) \<longrightarrow> g_end r \<noteq> None)"
  by (induction ns s st arbitrary: r rule: match_here.induct)
     (auto split: if_splits option.splits)

lemma search_from_group:
  "search_from ns s i = Some m \<Longrightarrow> GroupOpen \<in> set ns \<Longrightarrow> GroupClose \<in> set ns
   \<Longrightarrow> \<exists>g. group1 text m = Some g"
proof (induction s arbitrary: i)
  case Nil
  then show ?case
    using match_here_group [of ns "[]" "\<lparr>pos = i, g_start = None, g_end = None\<rparr>"]
    by (auto simp: group1_def split: option.splits)
next
  case (Cons c cs)
  show ?case
  proof (cases "match_here ns (c # cs) \<lparr>pos = i, g_start = None, g_end = None\<rparr>")
    case None
    with Cons show ?thesis by simp
  next
    case (Some r)
    with Cons.prems match_here_group [OF Some] show ?thesis
      by (auto simp: group1_def split: option.splits)
  qed
qed

lemma patterns_group: "list_all has_group (patterns U)"
  by (simp add: patterns_def section_pattern_def last_section_pattern_def has_group_def)

lemma patterns_labels:
  "map snd (patterns U) =
     [cp ''D1'', cp ''D2'', cp ''D3'', cp ''D4'', cp ''D5'', cp ''D6'', cp ''D7'', cp ''D8'']"
  by (simp add: patterns_def)

lemma extract_loop_result:
  "list_all has_group ps \<Longrightarrow>
   \<exists>d. extract_loop U ps text secs = Inr d
     \<and> dom d = dom secs \<union> {l. \<exists>p. (p, l) \<in> set ps \<and> re_search p text \<noteq> None}
     \<and> (\<forall>k. (\<forall>p. (p, k) \<in> set ps \<longrightarrow> re_search p text = None) \<longrightarrow> d k = secs k)"
proof (induction ps arbitrary: secs)
  case Nil
  then show ?case by simp
next
  case (Cons a ps)
  obtain p l where a: "a = (p, l)" by (cases a)
  from Cons.prems have grp: "list_all has_group ps" and ga: "has_group (p, l)"
    by (simp_all add: a)
  show ?case
  proof (cases "re_search p text")
    case None
    from Cons.IH [OF grp] obtain d where
      d: "extract_loop U ps text secs = Inr d"
         "dom d = dom secs \<union> {l. \<exists>p. (p, l) \<in> set ps \<and> re_search p text \<noteq> None}"
         "\<forall>k. (\<forall>p. (p, k) \<in> set ps \<longrightarrow> re_search p text = None) \<longrightarrow> d k = secs k"
      by blast
    from d None show ?thesis
      by (auto simp: a)
  next
    case (Some m)
    from ga have "GroupOpen \<in> set p" "GroupClose \<in> set p"
      by (simp_all add: has_group_def)
    with Some obtain g where g: "group1 text m = Some g"
      using search_from_group [of p "text" 0 m "text"] by (auto simp: re_search_def)
    from Cons.IH [OF grp] obtain d where
      d: "extract_loop U ps text (secs(l \<mapsto> strip U g)) = Inr d"
         "dom d = dom (secs(l \<mapsto> strip U g)) \<union> {l. \<exists>p. (p, l) \<in> set ps \<and> re_search p text \<noteq> None}"
         "\<forall>k. (\<forall>p. (p, k) \<in> set ps \<longrightarrow> re_search p text = None) \<longrightarrow> d k = (secs(l \<mapsto> strip U g)) k"
      by blast
    have e: "extract_loop U (a # ps) text secs = Inr d"
      by (simp add: a Some g d(1))
    have "dom d = dom secs \<union> {l. \<exists>p. (p, l) \<in> set (a # ps) \<and> re_search p text \<noteq> None}"
      using d(2) Some by (auto simp: a)
    moreover have "\<forall>k. (\<forall>p. (p, k) \<in> set (a # ps) \<longrightarrow> re_search p text = None) \<longrightarrow> d k = secs k"
      using d(3) Some by (auto simp: a)
    ultimately show ?thesis using e by blast
  qed
qed

lemma dom_empty_sections:
  "dom empty_sections =
     {cp ''D1'', cp ''D2'', cp ''D3'', cp ''D4'', cp ''D5'', cp ''D6'', cp ''D7'', cp ''D8''}"
  by (auto simp: empty_sections_def)

lemma empty_sections_value: "k \<in> dom empty_sections \<Longrightarrow> empty_sections k = Some []"
  by (auto simp: empty_sections_def split: if_splits)

lemma distinct_snd_unique:
  "distinct (map snd xs) \<Longrightarrow> (a, l) \<in> set xs \<Longrightarrow> (b, l) \<in> set xs \<Longrightarrow> a = b"
  by (induction xs) (auto simp: image_iff)

text \<open>
  Claim C4. For every text the segmenter returns a dictionary, raising nothing; its keys
  are exactly D1 to D8, its values are strings, and the value of a label whose pattern
  has no match in the text is the empty string.
\<close>

theorem segmenter_total:
  "\<exists>d. extract_8d_sections U doc_text = Inr d
     \<and> dom d = {cp ''D1'', cp ''D2'', cp ''D3'', cp ''D4'', cp ''D5'', cp ''D6'', cp ''D7'', cp ''D8''}
     \<and> (\<forall>p l. (p, l) \<in> set (patterns U) \<longrightarrow> re_search p doc_text = None \<longrightarrow> d l = Some [])"
proof -
  from extract_loop_result [OF patterns_group] obtain d where
    d1: "extract_loop U (patterns U) doc_text empty_sections = Inr d" and
    d2: "dom d = dom empty_sections \<union> {l. \<exists>p. (p, l) \<in> set (patterns U) \<and> re_search p doc_text \<noteq> None}" and
    d3: "\<forall>k. (\<forall>p. (p, k) \<in> set (patterns U) \<longrightarrow> re_search p doc_text = None) \<longrightarrow> d k = empty_sections k"
    by blast
  have "set (map snd (patterns U)) = dom empty_sections"
    by (simp only: patterns_labels dom_empty_sections) simp
  then have labels: "snd ` set (patterns U) = dom empty_sections"
    by simp
  have dist: "distinct (map snd (patterns U))"
    by (simp add: patterns_labels cp_def)
  have inl: "l \<in> dom empty_sections" if "(p, l) \<in> set (patterns U)" for p l
  proof -
    from that have "snd (p, l) \<in> snd ` set (patterns U)" by (rule imageI)
    with labels show ?thesis by simp
  qed
  have "{l. \<exists>p. (p, l) \<in> set (patterns U) \<and> re_search p doc_text \<noteq> None} \<subseteq> dom empty_sections"
    using inl by blast
  with d2 have dom: "dom d = dom empty_sections" by blast
  have none: "d l = Some []" if pl: "(p, l) \<in> set (patterns U)" and n: "re_search p doc_text = None" for p l
  proof -
    have "p' = p" if "(p', l) \<in> set (patterns U)" for p'
      using distinct_snd_unique [OF dist that pl] .
    then have "\<forall>p'. (p', l) \<in> set (patterns U) \<longrightarrow> re_search p' doc_text = None"
      using n by blast
    with d3 have "d l = empty_sections l" by blast
    with inl [OF pl] show ?thesis by (simp add: empty_sections_value)
  qed
  have "extract_8d_sections U doc_text = Inr d"
    using d1 by (simp add: extract_8d_sections_def)
  moreover have "dom d = {cp ''D1'', cp ''D2'', cp ''D3'', cp ''D4'', cp ''D5'', cp ''D6'', cp ''D7'', cp ''D8''}"
    using dom by (simp only: dom_empty_sections)
  ultimately show ?thesis using none by blast
qed


theorem segmenter_total_witness:
  "\<exists>d. extract_8d_sections ascii_db [0x62A5, 0x544A, 10, 0x65E0] = Inr d
     \<and> dom d = {cp ''D1'', cp ''D2'', cp ''D3'', cp ''D4'', cp ''D5'', cp ''D6'', cp ''D7'', cp ''D8''}
     \<and> d (cp ''D3'') = Some []"
proof -
  have m: "(section_pattern ascii_db 51 52, cp ''D3'') \<in> set (patterns ascii_db)"
    by (simp add: patterns_def)
  have n: "re_search (section_pattern ascii_db 51 52) [0x62A5, 0x544A, 10, 0x65E0] = None"
    by code_simp
  from segmenter_total [of ascii_db "[0x62A5, 0x544A, 10, 0x65E0]"] m n show ?thesis
    by blast
qed

lemmas segment_eval = extract_8d_sections_def patterns_def cp_def section_pattern_def
  last_section_pattern_def re_search_def letter_D_def lit_def label_sep_def isspace_def group1_def
  dot_all_def at_dollar_def strip_def lstrip_def rstrip_def empty_sections_def

text \<open>
  Claim C5. There is a text with a D1 label and a D3 label and no D2 label, in either
  case of the letter, for which the D1 section runs over the D3 heading to the end of
  the text, while the D3 section is extracted as well, from the same text.
\<close>

theorem segmentation_overrun:
  "sublist (cp ''D1'') (cp ''D1: team'' @ [10] @ cp ''D3: contain lot'')
   \<and> sublist (cp ''D3'') (cp ''D1: team'' @ [10] @ cp ''D3: contain lot'')
   \<and> \<not> sublist (cp ''d2'') (lower U (cp ''D1: team'' @ [10] @ cp ''D3: contain lot''))
   \<and> (\<exists>d. extract_8d_sections U (cp ''D1: team'' @ [10] @ cp ''D3: contain lot'') = Inr d
        \<and> d (cp ''D1'') = Some (cp ''team'' @ [10] @ cp ''D3: contain lot'')
        \<and> d (cp ''D2'') = Some []
        \<and> d (cp ''D3'') = Some (cp ''contain lot''))"
proof -
  have a: "sublist (cp ''D1'') (cp ''D1: team'' @ [10] @ cp ''D3: contain lot'')"
    by (simp add: cp_def sublist_Cons_right)
  have b: "sublist (cp ''D3'') (cp ''D1: team'' @ [10] @ cp ''D3: contain lot'')"
    by (simp add: cp_def sublist_Cons_right)
  have c: "\<not> sublist (cp ''d2'') (lower U (cp ''D1: team'' @ [10] @ cp ''D3: contain lot''))"
    by (simp add: ascii_eval sublist_Cons_right)
  have d: "\<exists>d. extract_8d_sections U (cp ''D1: team'' @ [10] @ cp ''D3: contain lot'') = Inr d
        \<and> d (cp ''D1'') = Some (cp ''team'' @ [10] @ cp ''D3: contain lot'')
        \<and> d (cp ''D2'') = Some []
        \<and> d (cp ''D3'') = Some (cp ''contain lot'')"
    by (simp add: segment_eval)
  from a b c d show ?thesis by blast
qed


theorem segmentation_overrun_witness:
  "\<exists>d. extract_8d_sections ascii_db (cp ''D1: team'' @ [10] @ cp ''D3: contain lot'') = Inr d
     \<and> d (cp ''D1'') = Some (cp ''team'' @ [10] @ cp ''D3: contain lot'')
     \<and> d (cp ''D3'') = Some (cp ''contain lot'')"
  using segmentation_overrun [of ascii_db] by blast

section \<open>The evidence snippet selector\<close>

lemma lstrip_empty_iff: "lstrip U s = [] \<longleftrightarrow> (\<forall>c \<in> set s. isspace U c)"
  by (simp add: lstrip_def dropWhile_eq_Nil_conv)

lemma rstrip_empty_iff: "rstrip U s = [] \<longleftrightarrow> (\<forall>c \<in> set s. isspace U c)"
  by (simp add: rstrip_def dropWhile_eq_Nil_conv)

lemma lstrip_hd: "lstrip U s \<noteq> [] \<Longrightarrow> \<not> isspace U (hd (lstrip U s))"
  unfolding lstrip_def by (rule hd_dropWhile)

lemma strip_empty_iff: "strip U s = [] \<longleftrightarrow> (\<forall>c \<in> set s. isspace U c)"
proof
  assume e: "strip U s = []"
  show "\<forall>c \<in> set s. isspace U c"
  proof (rule ccontr)
    assume "\<not> (\<forall>c \<in> set s. isspace U c)"
    then have ne: "lstrip U s \<noteq> []" by (simp add: lstrip_empty_iff)
    then have "\<not> isspace U (hd (lstrip U s))" by (rule lstrip_hd)
    moreover from ne have "hd (lstrip U s) \<in> set (lstrip U s)" by simp
    moreover from e have "\<forall>c \<in> set (lstrip U s). isspace U c"
      by (simp add: strip_def rstrip_empty_iff)
    ultimately show False by blast
  qed
next
  assume a: "\<forall>c \<in> set s. isspace U c"
  then have "lstrip U s = []" by (simp add: lstrip_empty_iff)
  then show "strip U s = []" by (simp add: strip_def rstrip_def)
qed

lemma rstrip_prefix: "\<exists>ws. s = rstrip U s @ ws"
proof -
  have "rstrip U s @ rev (takeWhile (isspace U) (rev s)) =
        rev (takeWhile (isspace U) (rev s) @ dropWhile (isspace U) (rev s))"
    by (simp only: rstrip_def rev_append)
  also have "\<dots> = rev (rev s)"
    by (simp only: takeWhile_dropWhile_id)
  finally have "s = rstrip U s @ rev (takeWhile (isspace U) (rev s))"
    by simp
  then show ?thesis ..
qed

lemma strip_first: "strip U s \<noteq> [] \<Longrightarrow> \<exists>c rest. strip U s = c # rest \<and> \<not> isspace U c"
proof -
  assume ne: "strip U s \<noteq> []"
  then have l: "lstrip U s \<noteq> []" by (auto simp: strip_def rstrip_def)
  obtain ws where w: "lstrip U s = strip U s @ ws"
    using rstrip_prefix [of "lstrip U s" U] by (auto simp: strip_def)
  from ne obtain c rest where cr: "strip U s = c # rest" by (cases "strip U s") auto
  with w have "hd (lstrip U s) = c" by simp
  with lstrip_hd [OF l] have "\<not> isspace U c" by simp
  with cr show ?thesis by blast
qed

lemma sub_from_keep:
  "\<not> isspace U c \<Longrightarrow> sub_from (ws_run U) repl 0 (c # cs) = c # sub_from (ws_run U) repl 0 cs"
  by (simp add: match_len_def ws_run_def)

lemma has_nonspace: "c \<in> set x \<Longrightarrow> \<not> isspace U c \<Longrightarrow> x \<noteq> [] \<and> strip U x \<noteq> []"
  by (auto simp: strip_empty_iff)

lemma raw_line_nonblank:
  assumes "strip U ln \<noteq> []"
  shows "re_sub (ws_run U) repl (strip U ln) \<noteq> [] \<and> strip U (re_sub (ws_run U) repl (strip U ln)) \<noteq> []"
proof -
  from strip_first [OF assms] obtain c rest where
    cr: "strip U ln = c # rest" and nc: "\<not> isspace U c" by blast
  have "re_sub (ws_run U) repl (strip U ln) = c # sub_from (ws_run U) repl 0 rest"
    by (simp only: re_sub_def cr sub_from_keep [OF nc])
  then have "c \<in> set (re_sub (ws_run U) repl (strip U ln))" by simp
  from has_nonspace [OF this nc] show ?thesis .
qed

lemma raw_lines_nonblank: "x \<in> set (raw_lines U doc) \<Longrightarrow> x \<noteq> [] \<and> strip U x \<noteq> []"
  by (auto simp: raw_lines_def dest: raw_line_nonblank)

lemma splitlines_from_chars: "ln \<in> set (splitlines_from cur s) \<Longrightarrow> set ln \<subseteq> set cur \<union> set s"
  by (induction cur s rule: splitlines_from.induct) (auto split: if_splits)

lemma raw_lines_text: "raw_lines U doc \<noteq> [] \<Longrightarrow> doc \<noteq> [] \<and> strip U doc \<noteq> []"
proof -
  assume "raw_lines U doc \<noteq> []"
  then obtain ln where ln: "ln \<in> set (splitlines doc)" and s: "strip U ln \<noteq> []"
    by (auto simp: raw_lines_def filter_empty_conv)
  from s obtain c where c: "c \<in> set ln" "\<not> isspace U c"
    by (auto simp: strip_empty_iff)
  from ln have "set ln \<subseteq> set doc"
    using splitlines_from_chars [of ln "[]" doc] by (simp add: splitlines_def)
  with c have "c \<in> set doc" by blast
  from has_nonspace [OF this c(2)] show ?thesis .
qed

lemma max_from_mem: "max_from key b xs \<in> set (b # xs)"
  by (induction xs arbitrary: b) (auto split: if_splits)

lemma py_max_mem: "xs \<noteq> [] \<Longrightarrow> \<exists>m. py_max key xs = Inr m \<and> m \<in> set xs"
  using max_from_mem [of key "hd xs" "tl xs"]
  by (cases xs) (auto simp: py_max_def)

lemma candidates_sub:
  "lines \<noteq> [] \<Longrightarrow> candidates U lines \<noteq> [] \<and> set (candidates U lines) \<subseteq> set lines"
  by (auto simp: candidates_def Let_def)

lemma snippet_none:
  "raw_lines U doc = [] \<Longrightarrow> extract_evidence_snippet U doc max_len kws = Inr not_found"
  by (simp add: extract_evidence_snippet_def)

lemma snippet_some:
  assumes "raw_lines U doc \<noteq> []"
  shows "\<exists>snippet \<in> set (raw_lines U doc).
           extract_evidence_snippet U doc max_len kws =
             Inr (if int (length snippet) > max_len
                  then rstrip U (slice_to snippet (max_len - 3)) @ cp ''...'' else snippet)"
proof -
  from candidates_sub [OF assms] have c: "candidates U (raw_lines U doc) \<noteq> []"
    and sub: "set (candidates U (raw_lines U doc)) \<subseteq> set (raw_lines U doc)" by auto
  from py_max_mem [OF c] obtain m where
    m: "py_max (score U kws) (candidates U (raw_lines U doc)) = Inr m"
    and mem: "m \<in> set (candidates U (raw_lines U doc))" by blast
  from mem sub have r: "m \<in> set (raw_lines U doc)" by blast
  from raw_lines_nonblank [OF r] have nb: "m \<noteq> []" "strip U m \<noteq> []" by auto
  from raw_lines_text [OF assms] have t: "doc \<noteq> []" "strip U doc \<noteq> []" by auto
  have "extract_evidence_snippet U doc max_len kws =
          Inr (if int (length m) > max_len
               then rstrip U (slice_to m (max_len - 3)) @ cp ''...'' else m)"
    using assms m nb t by (simp add: extract_evidence_snippet_def)
  with r show ?thesis by blast
qed

lemma truncated_length:
  "3 \<le> max_len \<Longrightarrow> int (length (rstrip U (slice_to x (max_len - 3)) @ cp ''...'')) \<le> max_len"
proof -
  assume a: "3 \<le> max_len"
  have "length (rstrip U (slice_to x (max_len - 3))) \<le> length (slice_to x (max_len - 3))"
    using length_dropWhile_le [of "isspace U" "rev (slice_to x (max_len - 3))"]
    by (simp add: rstrip_def)
  also have "\<dots> \<le> nat (max_len - 3)"
    using a by (simp add: slice_to_def)
  finally have "length (rstrip U (slice_to x (max_len - 3))) \<le> nat (max_len - 3)" .
  moreover have "length (cp ''...'') = 3" by (simp add: cp_def)
  ultimately show ?thesis using a by simp
qed

lemma truncated_not_sentinel: "x @ cp ''...'' \<noteq> not_found"
proof
  assume "x @ cp ''...'' = not_found"
  then have "last (x @ cp ''...'') = last not_found" by simp
  then show False by (simp add: cp_def not_found_def)
qed

lemma not_found_length: "length not_found = 9"
  by (simp add: not_found_def cp_def)

text \<open>
  Claim C6, as the code has it. For every text and every list of keywords the selector
  returns a string, raising nothing. When \<open>max_len\<close> is at least 3, the string is the
  sentinel \<open>Not Found\<close>, of 9 characters whatever \<open>max_len\<close> is, or has at most
  \<open>max_len\<close> characters; so from \<open>max_len = 9\<close> on no returned string is longer than
  \<open>max_len\<close>.
\<close>

theorem snippet_length_bound:
  "\<exists>r. extract_evidence_snippet U doc max_len kws = Inr r
     \<and> (3 \<le> max_len \<longrightarrow> r = not_found \<or> int (length r) \<le> max_len)
     \<and> (9 \<le> max_len \<longrightarrow> int (length r) \<le> max_len)"
proof (cases "raw_lines U doc = []")
  case True
  from snippet_none [OF True] show ?thesis
    by (simp add: not_found_length)
next
  case False
  from snippet_some [OF False] obtain snippet where
    e: "extract_evidence_snippet U doc max_len kws =
          Inr (if int (length snippet) > max_len
               then rstrip U (slice_to snippet (max_len - 3)) @ cp ''...'' else snippet)"
    by blast
  show ?thesis
  proof (cases "int (length snippet) > max_len")
    case True
    with e truncated_length [of max_len U snippet] show ?thesis by auto
  next
    case False
    with e show ?thesis by auto
  qed
qed

theorem snippet_length_bound_witness:
  "(3::int) \<le> 20
   \<and> extract_evidence_snippet ascii_db
        (cp ''Root Cause:'' @ [10] @ cp ''CPK improved from 0.8 to 1.5 after fixture upgrade'') 20 None =
       Inr (cp ''CPK improved from...'')
   \<and> int (length (cp ''CPK improved from...'')) \<le> 20"
proof -
  let ?doc = "cp ''Root Cause:'' @ [10] @ cp ''CPK improved from 0.8 to 1.5 after fixture upgrade''"
  have e: "extract_evidence_snippet ascii_db ?doc 20 None = Inr (cp ''CPK improved from...'')"
    by code_simp
  have n: "cp ''CPK improved from...'' \<noteq> not_found"
    by code_simp
  from snippet_length_bound [of ascii_db ?doc 20 None] e n show ?thesis
    by simp
qed

text \<open>
  On the empty text and \<open>max_len = 5\<close> the selector returns the sentinel, and 9 is more
  than 5.
\<close>

theorem snippet_length_counterexample:
  "extract_evidence_snippet ascii_db [] 5 None = Inr not_found \<and> \<not> int (length not_found) \<le> 5"
  by code_simp


text \<open>
  Below \<open>max_len = 3\<close> the slice \<open>snippet[: max_len - 3]\<close> has a negative end and cuts
  from the end of the line instead: with \<open>max_len = 1\<close> a line of 50 characters comes
  back with 51.
\<close>

lemma truncation_below_three:
  "extract_evidence_snippet ascii_db
     (cp ''CPK improved from 0.8 to 1.5 after fixture upgrade'') 1 None =
   Inr (cp ''CPK improved from 0.8 to 1.5 after fixture upgra...'')"
  by code_simp

text \<open>
  Claim C7, as the code has it. When the text has no line left after the lines are
  split, stripped and the blank ones dropped, the selector returns \<open>Not Found\<close>. When it
  returns \<open>Not Found\<close>, either no line is left, or one of the lines left reads
  \<open>Not Found\<close> itself and \<open>max_len\<close> is at least 9.
\<close>

theorem snippet_sentinel:
  "(raw_lines U doc = [] \<longrightarrow> extract_evidence_snippet U doc max_len kws = Inr not_found)
   \<and> (extract_evidence_snippet U doc max_len kws = Inr not_found \<longrightarrow>
        raw_lines U doc = [] \<or> (not_found \<in> set (raw_lines U doc) \<and> 9 \<le> max_len))"
proof (cases "raw_lines U doc = []")
  case True
  from snippet_none [OF True] True show ?thesis by simp
next
  case False
  from snippet_some [OF False] obtain snippet where
    s: "snippet \<in> set (raw_lines U doc)" and
    e: "extract_evidence_snippet U doc max_len kws =
          Inr (if int (length snippet) > max_len
               then rstrip U (slice_to snippet (max_len - 3)) @ cp ''...'' else snippet)"
    by blast
  show ?thesis
  proof (cases "int (length snippet) > max_len")
    case True
    with e truncated_not_sentinel False show ?thesis by simp
  next
    case le: False
    have "not_found \<in> set (raw_lines U doc) \<and> 9 \<le> max_len" if "snippet = not_found"
      using that s le by (simp add: not_found_length)
    with e le False show ?thesis by auto
  qed
qed


theorem snippet_sentinel_witness:
  "raw_lines ascii_db (cp ''  '' @ [10, 9]) = []
   \<and> extract_evidence_snippet ascii_db (cp ''  '' @ [10, 9]) 160 None = Inr not_found"
proof -
  have r: "raw_lines ascii_db (cp ''  '' @ [10, 9]) = []"
    by code_simp
  from snippet_sentinel [of ascii_db "cp ''  '' @ [10, 9]" 160 None] r show ?thesis
    by simp
qed

text \<open>
  The text \<open>Not Found\<close> has one line left, and the selector returns it: the sentinel
  comes back from a text that is not blank.
\<close>

theorem snippet_sentinel_counterexample:
  "extract_evidence_snippet ascii_db (cp ''Not Found'') 160 None = Inr not_found
   \<and> raw_lines ascii_db (cp ''Not Found'') = [cp ''Not Found'']
   \<and> raw_lines ascii_db (cp ''Not Found'') \<noteq> []"
  by code_simp


end
